theory Spec2Isabelle
  imports Complex_Main
begin

section \<open>Tensor values\<close>

text \<open>
  The notebooks compute with torch float32 tensors. Rounding is idealised away: a finite
  tensor entry is a real number. The non-finite values a float operation can produce
  (a division by zero, the logarithm of zero) are kept, since the loss can return them,
  and so is the range of the exponential, which is what leaves the float32 range on
  inputs of moderate size: \<open>torch.exp\<close> underflows to zero and overflows to infinity.
  Zero carries no sign.
\<close>

datatype tfloat = Fin real | PInf | NInf | NaN

fun tneg :: "tfloat \<Rightarrow> tfloat" where
  "tneg (Fin a) = Fin (- a)"
| "tneg PInf = NInf"
| "tneg NInf = PInf"
| "tneg NaN = NaN"

fun tadd :: "tfloat \<Rightarrow> tfloat \<Rightarrow> tfloat" where
  "tadd (Fin a) (Fin b) = Fin (a + b)"
| "tadd NaN y = NaN"
| "tadd x NaN = NaN"
| "tadd PInf NInf = NaN"
| "tadd NInf PInf = NaN"
| "tadd PInf y = PInf"
| "tadd x PInf = PInf"
| "tadd NInf y = NInf"
| "tadd x NInf = NInf"

definition tsub :: "tfloat \<Rightarrow> tfloat \<Rightarrow> tfloat" where
  "tsub x y = tadd x (tneg y)"

fun tmul :: "tfloat \<Rightarrow> tfloat \<Rightarrow> tfloat" where
  "tmul (Fin a) (Fin b) = Fin (a * b)"
| "tmul NaN y = NaN"
| "tmul x NaN = NaN"
| "tmul (Fin a) PInf = (if a = 0 then NaN else if 0 < a then PInf else NInf)"
| "tmul (Fin a) NInf = (if a = 0 then NaN else if 0 < a then NInf else PInf)"
| "tmul PInf (Fin b) = (if b = 0 then NaN else if 0 < b then PInf else NInf)"
| "tmul NInf (Fin b) = (if b = 0 then NaN else if 0 < b then NInf else PInf)"
| "tmul PInf PInf = PInf"
| "tmul PInf NInf = NInf"
| "tmul NInf PInf = NInf"
| "tmul NInf NInf = PInf"

fun tdiv :: "tfloat \<Rightarrow> tfloat \<Rightarrow> tfloat" where
  "tdiv (Fin a) (Fin b) =
     (if b \<noteq> 0 then Fin (a / b)
      else if a = 0 then NaN else if 0 < a then PInf else NInf)"
| "tdiv NaN y = NaN"
| "tdiv x NaN = NaN"
| "tdiv (Fin a) PInf = Fin 0"
| "tdiv (Fin a) NInf = Fin 0"
| "tdiv PInf (Fin b) = (if b < 0 then NInf else PInf)"
| "tdiv NInf (Fin b) = (if b < 0 then PInf else NInf)"
| "tdiv PInf PInf = NaN"
| "tdiv PInf NInf = NaN"
| "tdiv NInf PInf = NaN"
| "tdiv NInf NInf = NaN"

text \<open>
  \<open>torch.exp\<close> on float32, rounding to nearest: a result of at most \<open>2\<^sup>-\<^sup>1\<^sup>5\<^sup>0\<close> (half
  the smallest subnormal) is zero, so for instance \<open>exp(-200) = 0\<close>; a result of at
  least \<open>2\<^sup>1\<^sup>2\<^sup>8 - 2\<^sup>1\<^sup>0\<^sup>3\<close> is infinity.
\<close>

fun texp :: "tfloat \<Rightarrow> tfloat" where
  "texp (Fin a) =
     (if exp a \<le> 1 / 2 ^ 150 then Fin 0
      else if 2 ^ 128 - 2 ^ 103 \<le> exp a then PInf
      else Fin (exp a))"
| "texp PInf = PInf"
| "texp NInf = Fin 0"
| "texp NaN = NaN"

fun tlog :: "tfloat \<Rightarrow> tfloat" where
  "tlog (Fin a) = (if 0 < a then Fin (ln a) else if a = 0 then NInf else NaN)"
| "tlog PInf = PInf"
| "tlog NInf = NaN"
| "tlog NaN = NaN"

text \<open>The larger of two entries; \<open>torch.max\<close> propagates NaN.\<close>

fun tmax2 :: "tfloat \<Rightarrow> tfloat \<Rightarrow> tfloat" where
  "tmax2 (Fin a) (Fin b) = Fin (max a b)"
| "tmax2 NaN y = NaN"
| "tmax2 x NaN = NaN"
| "tmax2 PInf y = PInf"
| "tmax2 x PInf = PInf"
| "tmax2 NInf y = y"
| "tmax2 x NInf = x"

text \<open>\<open>t.sum()\<close> over one row.\<close>

definition tsum :: "tfloat list \<Rightarrow> tfloat" where
  "tsum xs = foldr tadd xs (Fin 0)"

type_synonym matrix = "real list list"
type_synonym tmatrix = "tfloat list list"

text \<open>
  A contiguous tensor of finite entries: its shape and its entries in row-major order
  (as many entries as the product of the shape).
\<close>

datatype tensor = Tensor (shape: "nat list") (elems: "real list")

section \<open>SupConLoss (main\_simclr.ipynb)\<close>

datatype error =
    FeaturesDimError        \<comment> \<open>ValueError: `features` needs to be [bsz, n\_views, ...]\<close>
  | LabelsAndMaskError      \<comment> \<open>ValueError: Cannot define both `labels` and `mask`\<close>
  | NumLabelsError          \<comment> \<open>ValueError: Num of labels does not match num of features\<close>
  | UnknownModeError string \<comment> \<open>ValueError: Unknown mode: ...\<close>
  | TorchRuntimeError       \<comment> \<open>raised inside a torch operation (view, cat, split)\<close>
  | TorchIndexError         \<comment> \<open>torch.max over a dimension of size zero\<close>
  | ZeroDivisionError       \<comment> \<open>Python float division by zero\<close>

record SupConLoss =
  temperature :: real
  contrast_mode :: string
  base_temperature :: real

text \<open>\<open>torch.eye(n)\<close>.\<close>

definition eye :: "nat \<Rightarrow> matrix" where
  "eye n = map (\<lambda>i. map (\<lambda>j. if i = j then 1 else 0) [0..<n]) [0..<n]"

text \<open>\<open>torch.eq(labels, labels.T).float()\<close> for the column vector \<open>labels\<close>.\<close>

definition eq_labels :: "int list \<Rightarrow> matrix" where
  "eq_labels ls = map (\<lambda>a. map (\<lambda>b. if a = b then 1 else 0) ls) ls"

text \<open>\<open>mask.repeat(r, c)\<close>: the matrix tiled \<open>r\<close> times down and \<open>c\<close> times across.\<close>

definition repeat :: "matrix \<Rightarrow> nat \<Rightarrow> nat \<Rightarrow> matrix" where
  "repeat m r c = concat (replicate r (map (\<lambda>row. concat (replicate c row)) m))"

text \<open>
  \<open>torch.scatter(torch.ones_like(mask), 1, torch.arange(k).view(-1, 1), 0)\<close>:
  all ones, with entry \<open>[i, i]\<close> set to zero for every \<open>i < k\<close>. For a base mask
  of shape \<open>(batch_size, batch_size)\<close> the tiled mask has at least \<open>k\<close> rows and
  \<open>k\<close> columns, so every index is in range; an explicit mask of another shape is
  outside this model (see \<open>square\<close> below).
\<close>

definition scatter_zero_diag :: "matrix \<Rightarrow> nat \<Rightarrow> matrix" where
  "scatter_zero_diag m k =
     map (\<lambda>i. let ones = map (\<lambda>_. 1) (m ! i) in if i < k then ones[i := 0] else ones)
       [0..<length m]"

text \<open>Elementwise product of two matrices of one shape.\<close>

definition mat_mul_elem :: "matrix \<Rightarrow> matrix \<Rightarrow> matrix" where
  "mat_mul_elem a b = map (\<lambda>(ra, rb). map (\<lambda>(x, y). x * y) (zip ra rb)) (zip a b)"

text \<open>
  The first branch of \<open>forward\<close> on \<open>labels\<close> and \<open>mask\<close>: the base mask of shape
  \<open>(batch_size, batch_size)\<close>. \<open>labels.contiguous().view(-1, 1)\<close> flattens the
  labels, so they are given as the list of their entries.
\<close>

definition base_mask :: "nat \<Rightarrow> int list option \<Rightarrow> matrix option \<Rightarrow> error + matrix" where
  "base_mask batch_size labels msk =
     (case (labels, msk) of
        (Some ls, Some m) \<Rightarrow> Inl LabelsAndMaskError
      | (None, None) \<Rightarrow> Inr (eye batch_size)
      | (Some ls, None) \<Rightarrow>
          if length ls \<noteq> batch_size then Inl NumLabelsError else Inr (eq_labels ls)
      | (None, Some m) \<Rightarrow> Inr m)"

text \<open>
  \<open>features[i, j, :]\<close> of the tensor viewed as \<open>(N, V, D)\<close>, and
  \<open>torch.cat(torch.unbind(features, dim=1), dim=0)\<close>: the rows of view 0 for all
  samples, then the rows of view 1, and so on.
\<close>

definition feature_row :: "tensor \<Rightarrow> nat \<Rightarrow> nat \<Rightarrow> real list" where
  "feature_row f i j =
     (let V = shape f ! 1; D = prod_list (drop 2 (shape f))
      in take D (drop ((i * V + j) * D) (elems f)))"

definition contrast_feature :: "tensor \<Rightarrow> real list list" where
  "contrast_feature f =
     concat (map (\<lambda>j. map (\<lambda>i. feature_row f i j) [0..<shape f ! 0]) [0..<shape f ! 1])"

definition dot :: "real list \<Rightarrow> real list \<Rightarrow> real" where
  "dot a b = sum_list (map (\<lambda>(x, y). x * y) (zip a b))"

text \<open>\<open>torch.div(torch.matmul(a, b.T), t)\<close>.\<close>

definition anchor_dot_contrast :: "real list list \<Rightarrow> real list list \<Rightarrow> real \<Rightarrow> tmatrix" where
  "anchor_dot_contrast a b t = map (\<lambda>ra. map (\<lambda>rb. tdiv (Fin (dot ra rb)) (Fin t)) b) a"

text \<open>\<open>torch.max(row)\<close> of a non-empty row.\<close>

definition row_max :: "tfloat list \<Rightarrow> tfloat" where
  "row_max row = foldr tmax2 (tl row) (hd row)"

definition sub_row_max :: "tmatrix \<Rightarrow> tmatrix" where
  "sub_row_max adc = map (\<lambda>row. map (\<lambda>x. tsub x (row_max row)) row) adc"

text \<open>
  \<open>exp_logits = torch.exp(logits) * logits_mask\<close> and
  \<open>log_prob = logits - torch.log(exp_logits.sum(1, keepdim=True))\<close>, one row at a time.
\<close>

definition exp_logits_row :: "tfloat list \<Rightarrow> real list \<Rightarrow> tfloat list" where
  "exp_logits_row lrow lmrow = map (\<lambda>(l, m). tmul (texp l) (Fin m)) (zip lrow lmrow)"

definition log_prob_row :: "tfloat list \<Rightarrow> real list \<Rightarrow> tfloat list" where
  "log_prob_row lrow lmrow =
     map (\<lambda>l. tsub l (tlog (tsum (exp_logits_row lrow lmrow)))) lrow"

text \<open>\<open>(mask * log_prob).sum(1) / mask.sum(1)\<close>, one row at a time.\<close>

definition mean_log_prob_pos_row :: "real list \<Rightarrow> tfloat list \<Rightarrow> tfloat" where
  "mean_log_prob_pos_row mrow lprow =
     tdiv (tsum (map (\<lambda>(m, lp). tmul (Fin m) lp) (zip mrow lprow))) (Fin (sum_list mrow))"

text \<open>
  The tiled mask with the self-contrast entries removed:
  \<open>mask.repeat(anchor_count, contrast_count) * logits_mask\<close>.
\<close>

definition logits_mask_of :: "matrix \<Rightarrow> nat \<Rightarrow> nat \<Rightarrow> nat \<Rightarrow> matrix" where
  "logits_mask_of msk batch_size anchor_count contrast_count =
     scatter_zero_diag (repeat msk anchor_count contrast_count) (batch_size * anchor_count)"

definition final_mask :: "matrix \<Rightarrow> nat \<Rightarrow> nat \<Rightarrow> nat \<Rightarrow> matrix" where
  "final_mask msk batch_size anchor_count contrast_count =
     mat_mul_elem (repeat msk anchor_count contrast_count)
       (logits_mask_of msk batch_size anchor_count contrast_count)"

text \<open>
  The body of \<open>forward\<close> from the comment \<open># for numerical stability\<close> to the
  \<open>return\<close>, as a function of the similarity matrix \<open>anchor_dot_contrast\<close> and the
  base mask.
\<close>

definition loss_of_similarity ::
  "SupConLoss \<Rightarrow> nat \<Rightarrow> nat \<Rightarrow> nat \<Rightarrow> tmatrix \<Rightarrow> matrix \<Rightarrow> error + tfloat" where
  "loss_of_similarity self batch_size anchor_count contrast_count adc mask0 =
     (if batch_size * contrast_count = 0 then Inl TorchIndexError
      else
        let logits = sub_row_max adc;
            logits_mask = logits_mask_of mask0 batch_size anchor_count contrast_count;
            msk = final_mask mask0 batch_size anchor_count contrast_count;
            log_prob = map (\<lambda>(lrow, lmrow). log_prob_row lrow lmrow) (zip logits logits_mask);
            mean_log_prob_pos =
              map (\<lambda>(mrow, lprow). mean_log_prob_pos_row mrow lprow) (zip msk log_prob)
        in if base_temperature self = 0 then Inl ZeroDivisionError
           else
             let loss = map (\<lambda>x. tmul (Fin (- (temperature self / base_temperature self))) x)
                          mean_log_prob_pos
             in Inr (tdiv (tsum loss) (Fin (real (length loss)))))"

definition forward ::
  "SupConLoss \<Rightarrow> tensor \<Rightarrow> int list option \<Rightarrow> matrix option \<Rightarrow> error + tfloat" where
  "forward self features labels msk =
     (if length (shape features) < 3 then Inl FeaturesDimError
      else if length (shape features) > 3 \<and> shape features ! 0 * shape features ! 1 = 0
        then Inl TorchRuntimeError
      else
        let batch_size = shape features ! 0 in
        case base_mask batch_size labels msk of
          Inl e \<Rightarrow> Inl e
        | Inr mask0 \<Rightarrow>
            let contrast_count = shape features ! 1 in
            if contrast_count = 0 then Inl TorchRuntimeError
            else
              let cf = contrast_feature features in
              if contrast_mode self = ''one'' then
                loss_of_similarity self batch_size 1 contrast_count
                  (anchor_dot_contrast (map (\<lambda>i. feature_row features i 0) [0..<batch_size])
                     cf (temperature self)) mask0
              else if contrast_mode self = ''all'' then
                loss_of_similarity self batch_size contrast_count contrast_count
                  (anchor_dot_contrast cf cf (temperature self)) mask0
              else Inl (UnknownModeError (contrast_mode self)))"


text \<open>
  Shape conditions used in the statements below: a base mask of shape \<open>(n, n)\<close>, and the
  other view of row \<open>p\<close> among the \<open>2 * n\<close> rows of the two-view layout.
\<close>

definition square :: "nat \<Rightarrow> matrix \<Rightarrow> bool" where
  "square n m \<longleftrightarrow> length m = n \<and> (\<forall>row \<in> set m. length row = n)"

definition partner :: "nat \<Rightarrow> nat \<Rightarrow> nat" where
  "partner n p = (if p < n then p + n else p - n)"


section \<open>SupCon and the pre-training step (main\_simclr.ipynb)\<close>

text \<open>
  \<open>F.normalize(x, dim=1)\<close>: every row divided by \<open>max(\<parallel>row\<parallel>\<^sub>2, eps)\<close> with
  \<open>eps = 1e-12\<close>.
\<close>

definition l2_norm :: "real list \<Rightarrow> real" where
  "l2_norm v = sqrt (sum_list (map (\<lambda>x. x * x) v))"

definition F_normalize :: "matrix \<Rightarrow> matrix" where
  "F_normalize x = map (\<lambda>v. map (\<lambda>a. a / max (l2_norm v) (1 / 10 ^ 12)) v) x"

text \<open>
  The encoder and the projection head are networks outside this development: functions
  from a batch to a batch of vectors (a batch-normalisation layer makes a row depend on
  the whole batch).
\<close>

record 'img SupCon =
  encoder :: "'img list \<Rightarrow> matrix"
  head :: "matrix \<Rightarrow> matrix"

definition SupCon_forward :: "'img SupCon \<Rightarrow> 'img list \<Rightarrow> matrix" where
  "SupCon_forward model x = (let feat = encoder model x in F_normalize (head model feat))"

text \<open>
  Calling the model is an effect: the batches it has been run on are logged, in order.
\<close>

definition call_model ::
  "'img SupCon \<Rightarrow> 'img list \<Rightarrow> 'img list list \<Rightarrow> matrix \<times> 'img list list" where
  "call_model model x calls = (SupCon_forward model x, calls @ [x])"

text \<open>
  The body of the loop of \<open>pretraining\<close> up to the call of the criterion: from the two
  view batches \<open>data[0]\<close>, \<open>data[1]\<close> and the labels to the \<open>(bsz, 2, D)\<close> features,
  here a list of \<open>bsz\<close> pairs of rows. \<open>torch.split\<close> raises when the sizes
  \<open>[bsz, bsz]\<close> do not add up to the number of rows.
\<close>

definition pretraining_features ::
  "'img SupCon \<Rightarrow> 'img list \<Rightarrow> 'img list \<Rightarrow> int list \<Rightarrow> 'img list list \<Rightarrow>
     (error + real list list list) \<times> 'img list list" where
  "pretraining_features model data0 data1 labels calls =
     (let data = data0 @ data1;
          bsz = length labels;
          (features, calls') = call_model model data calls
      in if length features \<noteq> bsz + bsz then (Inl TorchRuntimeError, calls')
         else
           let f1 = take bsz features; f2 = drop bsz features
           in (Inr (map (\<lambda>(a, b). [a, b]) (zip f1 f2)), calls'))"

section \<open>calculate\_accuracy\<close>

text \<open>
  \<open>row.max()[1]\<close>: the index of the largest entry of a non-empty row, the first one
  when several are equal.
\<close>

fun argmax_from :: "real list \<Rightarrow> nat \<Rightarrow> nat \<Rightarrow> real \<Rightarrow> nat" where
  "argmax_from [] i best v = best"
| "argmax_from (x # xs) i best v =
     (if v < x then argmax_from xs (Suc i) i x else argmax_from xs (Suc i) best v)"

definition argmax :: "real list \<Rightarrow> nat" where
  "argmax row = argmax_from (tl row) 1 0 (hd row)"

text \<open>
  \<open>calculate_accuracy(output, target)\<close> for an \<open>(N, C)\<close> score matrix with \<open>C \<ge> 1\<close>,
  given by its rows, and a target tensor, given by its entries in order (the function
  flattens it). The comparison \<open>target == output\<close> of the two flat boolean tensors
  broadcasts when one of them has a single entry and raises when the lengths differ
  otherwise.
\<close>

definition calculate_accuracy :: "matrix \<Rightarrow> real list \<Rightarrow> error + tfloat" where
  "calculate_accuracy output target =
     (let out1 = map (\<lambda>row. real (argmax row)) output;
          out2 = map (\<lambda>x. x = 1) out1;
          tgt = map (\<lambda>x. x = 1) target;
          n = length out2; m = length tgt
      in if m \<noteq> n \<and> m \<noteq> 1 \<and> n \<noteq> 1 then Inl TorchRuntimeError
         else
           let eqs = (if m = n then map (\<lambda>(t, out). t = out) (zip tgt out2)
                      else if n = 1 then map (\<lambda>t. t = hd out2) tgt
                      else map (\<lambda>out. hd tgt = out) out2)
           in Inr (tdiv (Fin (real (length (filter (\<lambda>b. b) eqs)))) (Fin (real n))))"

text \<open>
  Top-1 accuracy as the specification words it: the fraction of samples whose argmax
  equals the target class. The target class of a sample is its label, or the position
  of the one in its one-hot row.
\<close>

definition top1_accuracy :: "matrix \<Rightarrow> nat list \<Rightarrow> real" where
  "top1_accuracy output classes =
     real (length (filter (\<lambda>(row, c). argmax row = c) (zip output classes)))
       / real (length output)"

definition top1_accuracy_one_hot :: "matrix \<Rightarrow> matrix \<Rightarrow> real" where
  "top1_accuracy_one_hot output target = top1_accuracy output (map argmax target)"


section \<open>The positive mask\<close>

lemma length_concat_replicate: "length (concat (replicate r xs)) = r * length xs"
  by (induction r) auto

lemma nth_concat_replicate:
  "p < r * length xs \<Longrightarrow> concat (replicate r xs) ! p = xs ! (p mod length xs)"
proof (induction r arbitrary: p)
  case 0
  then show ?case by simp
next
  case (Suc r)
  show ?case
  proof (cases "p < length xs")
    case True
    then show ?thesis by (simp add: nth_append)
  next
    case False
    then have "p - length xs < r * length xs" using Suc.prems by simp
    from Suc.IH[OF this] False show ?thesis
      by (simp add: nth_append le_mod_geq)
  qed
qed

lemma length_repeat: "length (repeat m r c) = r * length m"
  by (simp add: repeat_def length_concat_replicate)

lemma nth_repeat:
  "p < r * length m \<Longrightarrow> repeat m r c ! p = concat (replicate c (m ! (p mod length m)))"
proof -
  assume p: "p < r * length m"
  then have "0 < length m" by (cases "length m") auto
  then have "p mod length m < length m" by simp
  with p show ?thesis
    by (simp add: repeat_def nth_concat_replicate)
qed

lemma length_scatter_zero_diag: "length (scatter_zero_diag m k) = length m"
  by (simp add: scatter_zero_diag_def)

lemma nth_scatter_zero_diag:
  "p < length m \<Longrightarrow>
   scatter_zero_diag m k ! p =
     (if p < k then (map (\<lambda>_. 1) (m ! p))[p := 0] else map (\<lambda>_. 1) (m ! p))"
  by (simp add: scatter_zero_diag_def Let_def)

lemma length_final_mask: "length (final_mask m n ac cc) = ac * length m"
  by (simp add: final_mask_def mat_mul_elem_def logits_mask_of_def length_repeat
      length_scatter_zero_diag)


lemma nth_final_mask:
  assumes sq: "square n m" and p: "p < ac * n"
  shows "final_mask m n ac cc ! p =
           map (\<lambda>q. if q = p then 0 else m ! (p mod n) ! (q mod n)) [0..<cc * n]"
proof -
  from p have n: "0 < n" by (cases n) auto
  have len: "length m = n" using sq by (simp add: square_def)
  have pm: "p mod n < length m" using n len by simp
  have rowlen: "length (m ! (p mod n)) = n" using sq pm by (simp add: square_def)
  have rp: "repeat m ac cc ! p = concat (replicate cc (m ! (p mod n)))"
    using p len by (simp add: nth_repeat)
  have lrp: "length (repeat m ac cc ! p) = cc * n"
    by (simp add: rp length_concat_replicate rowlen)
  have plen: "p < length (repeat m ac cc)" using p len by (simp add: length_repeat)
  have fm: "final_mask m n ac cc ! p =
      map (\<lambda>(x, y). x * y) (zip (repeat m ac cc ! p) ((map (\<lambda>_. 1) (repeat m ac cc ! p))[p := 0]))"
    using plen p
    by (simp add: final_mask_def mat_mul_elem_def logits_mask_of_def length_scatter_zero_diag
        nth_scatter_zero_diag mult.commute)
  show ?thesis
  proof (rule nth_equalityI)
    show "length (final_mask m n ac cc ! p) = length (map (\<lambda>q. if q = p then 0 else m ! (p mod n) ! (q mod n)) [0..<cc * n])"
      by (simp add: fm lrp)
  next
    fix q assume "q < length (final_mask m n ac cc ! p)"
    then have q: "q < cc * n" by (simp add: fm lrp)
    have "repeat m ac cc ! p ! q = m ! (p mod n) ! (q mod n)"
      using q by (simp add: rp nth_concat_replicate rowlen)
    then show "final_mask m n ac cc ! p ! q = map (\<lambda>q. if q = p then 0 else m ! (p mod n) ! (q mod n)) [0..<cc * n] ! q"
      using q by (simp add: fm lrp nth_list_update)
  qed
qed


lemma square_eye: "square n (eye n)"
  by (auto simp: square_def eye_def)

lemma nth_eye: "a < n \<Longrightarrow> b < n \<Longrightarrow> eye n ! a ! b = (if a = b then 1 else 0)"
  by (simp add: eye_def)

lemma square_eq_labels: "square (length ls) (eq_labels ls)"
  by (auto simp: square_def eq_labels_def)

lemma nth_eq_labels:
  "a < length ls \<Longrightarrow> b < length ls \<Longrightarrow>
   eq_labels ls ! a ! b = (if ls ! a = ls ! b then 1 else 0)"
  by (simp add: eq_labels_def)


lemma mod_two_blocks: "p < 2 * n \<Longrightarrow> p mod n = (if p < n then p else p - (n::nat))"
  by (simp add: le_mod_geq)

lemma same_class_iff_partner:
  assumes "p < 2 * n" "q < 2 * n"
  shows "(q \<noteq> p \<and> p mod n = q mod n) \<longleftrightarrow> q = partner n p"
  using assms by (auto simp: mod_two_blocks partner_def split: if_splits)

lemma partner_less: "p < 2 * n \<Longrightarrow> partner n p < 2 * n"
  by (auto simp: partner_def)

lemma sum_list_indicator:
  "sum_list (map (\<lambda>q. if q = k then 1 else (0::real)) [0..<n]) = (if k < n then 1 else 0)"
  by (induction n) auto

lemma count_indicator:
  "length (filter ((<) 0 \<circ> (\<lambda>q. if q = k then 1 else (0::real))) [0..<n])
     = (if k < n then 1 else 0)"
  by (induction n) auto

lemma identity_mask_row:
  assumes p: "p < 2 * n"
  shows "final_mask (eye n) n 2 2 ! p = map (\<lambda>q. if q = partner n p then 1 else 0) [0..<2 * n]"
proof -
  from p have n: "0 < n" by (cases n) auto
  have "final_mask (eye n) n 2 2 ! p =
          map (\<lambda>q. if q = p then 0 else eye n ! (p mod n) ! (q mod n)) [0..<2 * n]"
    using p by (rule nth_final_mask[OF square_eye])
  also have "\<dots> = map (\<lambda>q. if q = partner n p then 1 else 0) [0..<2 * n]"
  proof (rule map_cong[OF refl])
    fix q assume "q \<in> set [0..<2 * n]"
    then have q: "q < 2 * n" by simp
    have "eye n ! (p mod n) ! (q mod n) = (if p mod n = q mod n then 1 else 0)"
      using n by (simp add: nth_eye)
    then show "(if q = p then 0 else eye n ! (p mod n) ! (q mod n)) =
               (if q = partner n p then 1 else (0::real))"
      using same_class_iff_partner[OF p q] by auto
  qed
  finally show ?thesis .
qed

lemma label_mask_row:
  assumes p: "p < 2 * length ls"
  shows "final_mask (eq_labels ls) (length ls) 2 2 ! p =
           map (\<lambda>q. if q = p then 0
                     else if ls ! (p mod length ls) = ls ! (q mod length ls) then 1 else 0)
             [0..<2 * length ls]"
proof -
  from p have n: "0 < length ls" by (cases ls) auto
  have "final_mask (eq_labels ls) (length ls) 2 2 ! p =
          map (\<lambda>q. if q = p then 0 else eq_labels ls ! (p mod length ls) ! (q mod length ls))
            [0..<2 * length ls]"
    using p by (rule nth_final_mask[OF square_eq_labels])
  also have "\<dots> = map (\<lambda>q. if q = p then 0
                     else if ls ! (p mod length ls) = ls ! (q mod length ls) then 1 else 0)
             [0..<2 * length ls]"
    using n by (simp add: nth_eq_labels)
  finally show ?thesis .
qed

lemma partner_neq: "p < 2 * n \<Longrightarrow> partner n p \<noteq> p"
  by (auto simp: partner_def)

lemma partner_mod: "p < 2 * n \<Longrightarrow> partner n p mod n = p mod n"
  by (auto simp: partner_def mod_two_blocks)



lemma tsum_Fin: "tsum (map Fin xs) = Fin (sum_list xs)"
  by (induction xs) (simp_all add: tsum_def)

















lemma length_logits_mask_of: "length (logits_mask_of B n ac cc) = ac * length B"
  by (simp add: logits_mask_of_def length_scatter_zero_diag length_repeat)


lemma nth_logits_mask_of:
  assumes "square n B" "p < ac * n"
  shows "logits_mask_of B n ac cc ! p = (map (\<lambda>_. 1) (repeat B ac cc ! p))[p := 0]"
proof -
  have "length B = n" using assms(1) by (simp add: square_def)
  then show ?thesis using assms(2)
    by (simp add: logits_mask_of_def nth_scatter_zero_diag length_repeat mult.commute)
qed

lemma nth_final_mask_prod:
  assumes "square n B" "p < ac * n"
  shows "final_mask B n ac cc ! p =
           map (\<lambda>(t, m). t * m) (zip (repeat B ac cc ! p) (logits_mask_of B n ac cc ! p))"
proof -
  have "length B = n" using assms(1) by (simp add: square_def)
  then show ?thesis using assms(2)
    by (simp add: final_mask_def mat_mul_elem_def length_repeat length_logits_mask_of)
qed

lemma repeat_row_nonneg:
  assumes sq: "square n B" and p: "p < ac * n"
    and nonneg: "\<forall>row \<in> set B. \<forall>x \<in> set row. 0 \<le> x"
  shows "\<forall>t \<in> set (repeat B ac cc ! p). 0 \<le> t"
proof -
  from p have n: "0 < n" by (cases n) auto
  have len: "length B = n" using sq by (simp add: square_def)
  have "B ! (p mod n) \<in> set B" using n len by simp
  then have "\<forall>x \<in> set (B ! (p mod n)). 0 \<le> x" using nonneg by blast
  then show ?thesis using p len by (auto simp: nth_repeat)
qed

lemma logits_mask_row_binary:
  assumes "square n B" "p < ac * n"
  shows "\<forall>m \<in> set (logits_mask_of B n ac cc ! p). m = 0 \<or> m = 1"
  using set_update_subset_insert[of "map (\<lambda>_. 1::real) (repeat B ac cc ! p)" p 0]
  by (auto simp: nth_logits_mask_of[OF assms])



lemma length_final_mask_row:
  assumes "square n B" "p < ac * n"
  shows "length (final_mask B n ac cc ! p) = cc * n"
  by (simp add: nth_final_mask[OF assms])

section \<open>The loss on finite and on degenerate inputs\<close>

lemma length_contrast_feature:
  "length (contrast_feature f) = shape f ! 1 * shape f ! 0"
  by (simp add: contrast_feature_def length_concat o_def sum_list_triv)


lemma length_anchor_dot_contrast: "length (anchor_dot_contrast a b t) = length a"
  by (simp add: anchor_dot_contrast_def)

lemma forward_all:
  assumes "3 \<le> length (shape features)"
    and "0 < shape features ! 0" and "0 < shape features ! 1"
    and "base_mask (shape features ! 0) labels msk = Inr B"
    and "contrast_mode self = ''all''"
  shows "forward self features labels msk =
           loss_of_similarity self (shape features ! 0) (shape features ! 1) (shape features ! 1)
             (anchor_dot_contrast (contrast_feature features) (contrast_feature features)
                (temperature self)) B"
  using assms by (simp add: forward_def Let_def)

lemma forward_one:
  assumes "3 \<le> length (shape features)"
    and "0 < shape features ! 0" and "0 < shape features ! 1"
    and "base_mask (shape features ! 0) labels msk = Inr B"
    and "contrast_mode self = ''one''"
  shows "forward self features labels msk =
           loss_of_similarity self (shape features ! 0) 1 (shape features ! 1)
             (anchor_dot_contrast (map (\<lambda>i. feature_row features i 0) [0..<shape features ! 0])
                (contrast_feature features) (temperature self)) B"
  using assms by (simp add: forward_def Let_def)

lemma tadd_NaN_right: "tadd x NaN = NaN"
  by (cases x) simp_all

lemma tsum_NaN: "NaN \<in> set xs \<Longrightarrow> tsum xs = NaN"
  by (induction xs) (auto simp: tsum_def tadd_NaN_right)

lemma tsum_zero_products:
  assumes "\<forall>m \<in> set ms. m = 0"
  shows "tsum (map (\<lambda>(m, lp). tmul (Fin m) lp) (zip ms lps)) \<in> {Fin 0, NaN}"
  using assms
proof (induction ms arbitrary: lps)
  case Nil
  then show ?case by (simp add: tsum_def)
next
  case (Cons m ms)
  show ?case
  proof (cases lps)
    case Nil
    then show ?thesis by (simp add: tsum_def)
  next
    case (Cons lp lps')
    have m: "m = 0" using Cons.prems by simp
    have hd: "tmul (Fin 0) lp \<in> {Fin 0, NaN}" by (cases lp) simp_all
    have tl: "tsum (map (\<lambda>(m, lp). tmul (Fin m) lp) (zip ms lps')) \<in> {Fin 0, NaN}"
      using Cons.IH Cons.prems by simp
    have "tadd x y \<in> {Fin 0, NaN}" if "x \<in> {Fin 0, NaN}" "y \<in> {Fin 0, NaN}" for x y
      using that by auto
    from this[OF hd tl] show ?thesis using Cons m by (simp add: tsum_def)
  qed
qed

lemma mean_log_prob_pos_row_degenerate:
  assumes "\<forall>m \<in> set ms. m = 0"
  shows "mean_log_prob_pos_row ms lps = NaN"
proof -
  have "sum_list ms = 0" using assms by (induction ms) auto
  moreover have "tdiv x (Fin 0) = NaN" if "x \<in> {Fin 0, NaN}" for x
    using that by auto
  ultimately show ?thesis using tsum_zero_products[OF assms, of lps]
    by (simp add: mean_log_prob_pos_row_def)
qed

lemma final_mask_row_nonneg:
  assumes sq: "square n B" and p: "p < ac * n"
    and nonneg: "\<forall>row \<in> set B. \<forall>x \<in> set row. 0 \<le> x"
  shows "\<forall>x \<in> set (final_mask B n ac cc ! p). 0 \<le> x"
proof
  fix x assume "x \<in> set (final_mask B n ac cc ! p)"
  then obtain t m where "(t, m) \<in> set (zip (repeat B ac cc ! p) (logits_mask_of B n ac cc ! p))"
    and x: "x = t * m"
    by (auto simp: nth_final_mask_prod[OF sq p])
  then have "t \<in> set (repeat B ac cc ! p)" "m \<in> set (logits_mask_of B n ac cc ! p)"
    by (auto dest: set_zip_leftD set_zip_rightD)
  then have "0 \<le> t" "m = 0 \<or> m = 1"
    using repeat_row_nonneg[OF sq p nonneg] logits_mask_row_binary[OF sq p] by auto
  then show "0 \<le> x" using x by auto
qed

lemma loss_of_similarity_degenerate:
  assumes sq: "square N B"
    and nonneg: "\<forall>row \<in> set B. \<forall>x \<in> set row. 0 \<le> x"
    and N: "0 < N" and cc: "0 < cc"
    and lenS: "length adc = ac * N"
    and bT: "base_temperature self \<noteq> 0"
    and p: "p < ac * N" and zero: "sum_list (final_mask B N ac cc ! p) = 0"
  shows "loss_of_similarity self N ac cc adc B = Inr NaN"
proof -
  let ?lm = "logits_mask_of B N ac cc"
  let ?fm = "final_mask B N ac cc"
  let ?lp = "map (\<lambda>(lrow, lmrow). log_prob_row lrow lmrow) (zip (sub_row_max adc) ?lm)"
  let ?mlpp = "map (\<lambda>(mrow, lprow). mean_log_prob_pos_row mrow lprow) (zip ?fm ?lp)"
  let ?c = "Fin (- (temperature self / base_temperature self))"
  have lenB: "length B = N" using sq by (simp add: square_def)
  have len_mlpp: "length ?mlpp = ac * N"
    by (simp add: length_final_mask length_logits_mask_of lenB lenS sub_row_max_def)
  have zeros: "\<forall>m \<in> set (?fm ! p). m = 0"
    using zero final_mask_row_nonneg[OF sq p nonneg]
    by (simp add: sum_list_nonneg_eq_0_iff)
  have "?mlpp ! p = mean_log_prob_pos_row (?fm ! p) (?lp ! p)"
    using p by (simp add: length_final_mask length_logits_mask_of lenB lenS sub_row_max_def)
  then have "?mlpp ! p = NaN"
    by (simp only: mean_log_prob_pos_row_degenerate[OF zeros])
  then have "map (\<lambda>x. tmul ?c x) ?mlpp ! p = NaN"
    using p len_mlpp by (simp only: nth_map tmul.simps)
  moreover have "p < length (map (\<lambda>x. tmul ?c x) ?mlpp)"
    using p len_mlpp by (simp only: length_map)
  ultimately have "NaN \<in> set (map (\<lambda>x. tmul ?c x) ?mlpp)" by (metis nth_mem)
  then have nan: "tsum (map (\<lambda>x. tmul ?c x) ?mlpp) = NaN" by (rule tsum_NaN)
  have nz: "N * cc \<noteq> 0" using N cc by simp
  have "loss_of_similarity self N ac cc adc B =
     Inr (tdiv (tsum (map (\<lambda>x. tmul ?c x) ?mlpp)) (Fin (real (length ?mlpp))))"
    unfolding loss_of_similarity_def Let_def by (simp only: nz bT if_False length_map)
  then show ?thesis unfolding nan by simp
qed


lemma tmax2_shift: "tmax2 (tadd a (Fin c)) (tadd b (Fin c)) = tadd (tmax2 a b) (Fin c)"
  by (cases a; cases b) simp_all

lemma foldr_tmax2_shift:
  "foldr tmax2 (map (\<lambda>x. tadd x (Fin c)) xs) (tadd a (Fin c)) = tadd (foldr tmax2 xs a) (Fin c)"
  by (induction xs) (simp_all add: tmax2_shift)

lemma row_max_shift:
  "row \<noteq> [] \<Longrightarrow> row_max (map (\<lambda>x. tadd x (Fin c)) row) = tadd (row_max row) (Fin c)"
  by (cases row) (simp_all add: row_max_def foldr_tmax2_shift)

lemma tsub_shift: "tsub (tadd x (Fin c)) (tadd m (Fin c)) = tsub x m"
  by (cases x; cases m) (simp_all add: tsub_def)

lemma sub_row_max_shift:
  "sub_row_max (map (map (\<lambda>x. tadd x (Fin c))) adc) = sub_row_max adc"
proof -
  have "map (\<lambda>x. tsub x (row_max (map (\<lambda>x. tadd x (Fin c)) row))) (map (\<lambda>x. tadd x (Fin c)) row)
        = map (\<lambda>x. tsub x (row_max row)) row" for row
    by (cases "row = []") (simp_all add: row_max_shift tsub_shift)
  then show ?thesis by (simp add: sub_row_max_def)
qed

lemma eq_labels_distinct:
  assumes "distinct ls"
  shows "eq_labels ls = eye (length ls)"
proof -
  have "map (\<lambda>a. map (\<lambda>b. if a = b then 1 else (0::real)) ls) ls =
        map (\<lambda>i. map (\<lambda>j. if ls ! i = ls ! j then 1 else 0) [0..<length ls]) [0..<length ls]"
    by (intro nth_equalityI) simp_all
  also have "\<dots> = map (\<lambda>i. map (\<lambda>j. if i = j then 1 else 0) [0..<length ls]) [0..<length ls]"
    using assms by (simp add: nth_eq_iff_index_eq)
  finally show ?thesis by (simp add: eq_labels_def eye_def)
qed





lemma sum_squares_scaled:
  "sum_list (map (\<lambda>x. x * x) (map (\<lambda>a. a / c) v))
     = sum_list (map (\<lambda>x. x * x) v) / (c * (c::real))"
  by (induction v) (simp_all add: add_divide_distrib)

lemma l2_norm_scaled: "0 < c \<Longrightarrow> l2_norm (map (\<lambda>a. a / c) v) = l2_norm v / c"
  unfolding l2_norm_def sum_squares_scaled by (simp add: real_sqrt_divide)

lemma l2_norm_normalized:
  assumes "1 / 10 ^ 12 \<le> l2_norm v"
  shows "l2_norm (map (\<lambda>a. a / max (l2_norm v) (1 / 10 ^ 12)) v) = 1"
proof -
  have pos: "0 < l2_norm v"
    using assms by (rule less_le_trans[rotated]) simp
  have "max (l2_norm v) (1 / 10 ^ 12) = l2_norm v" using assms by (simp add: max_def)
  then show ?thesis using pos by (simp add: l2_norm_scaled)
qed

lemma nth_F_normalize:
  "k < length x \<Longrightarrow>
   F_normalize x ! k = map (\<lambda>a. a / max (l2_norm (x ! k)) (1 / 10 ^ 12)) (x ! k)"
  by (simp add: F_normalize_def)

lemma length_F_normalize: "length (F_normalize x) = length x"
  by (simp add: F_normalize_def)





section \<open>The claims\<close>

text \<open>
  C1. With no labels and two views, the mask of \<open>forward\<close> (the identity tiled twice
  along both axes, diagonal zeroed) has shape \<open>(2N, 2N)\<close>; every row sums to one and has
  exactly one positive entry; rows \<open>i\<close> and \<open>i + N\<close> mark each other.
\<close>

theorem identity_mask_sole_positive:
  assumes "base_mask N None None = Inr B" and "M = final_mask B N 2 2"
  shows "length M = 2 * N
       \<and> (\<forall>p<2 * N. length (M ! p) = 2 * N \<and> sum_list (M ! p) = 1
                   \<and> length (filter (\<lambda>x. 0 < x) (M ! p)) = 1)
       \<and> (\<forall>i<N. M ! i ! (i + N) = 1 \<and> M ! (i + N) ! i = 1)"
proof -
  have B: "B = eye N" using assms(1) by (simp add: base_mask_def)
  have len: "length M = 2 * N"
    by (simp add: assms(2) B length_final_mask eye_def)
  have rows: "\<forall>p<2 * N. length (M ! p) = 2 * N \<and> sum_list (M ! p) = 1
                   \<and> length (filter (\<lambda>x. 0 < x) (M ! p)) = 1"
    by (simp add: assms(2) B identity_mask_row sum_list_indicator count_indicator partner_less)
  have pairs: "\<forall>i<N. M ! i ! (i + N) = 1 \<and> M ! (i + N) ! i = 1"
    by (simp add: assms(2) B identity_mask_row partner_def)
  from len rows pairs show ?thesis by blast
qed

theorem identity_mask_sole_positive_witness:
  "base_mask 2 None None = Inr (eye 2)
   \<and> sum_list (final_mask (eye 2) 2 2 2 ! 3) = 1
   \<and> length (filter (\<lambda>x. 0 < x) (final_mask (eye 2) 2 2 2 ! 3)) = 1
   \<and> final_mask (eye 2) 2 2 2 ! 1 ! (1 + 2) = 1
   \<and> final_mask (eye 2) 2 2 2 ! (1 + 2) ! 1 = 1"
proof -
  have h: "base_mask 2 None None = Inr (eye 2)" by (simp add: base_mask_def)
  note t = identity_mask_sole_positive[OF h refl]
  have r: "sum_list (final_mask (eye 2) 2 2 2 ! 3) = 1
         \<and> length (filter (\<lambda>x. 0 < x) (final_mask (eye 2) 2 2 2 ! 3)) = 1"
    using t[THEN conjunct2, THEN conjunct1, rule_format, of 3] by simp
  have q: "final_mask (eye 2) 2 2 2 ! 1 ! (1 + 2) = 1 \<and> final_mask (eye 2) 2 2 2 ! (1 + 2) ! 1 = 1"
    using t[THEN conjunct2, THEN conjunct2, rule_format, of 1] by simp
  from h r q show ?thesis by blast
qed

text \<open>
  C4. With labels and two views, the mask of \<open>forward\<close> (label equality tiled twice along
  both axes, diagonal zeroed) is symmetric and every row sums to at least one.
\<close>

theorem label_mask_symmetric_row_sum:
  assumes "base_mask N (Some ls) None = Inr B" and "M = final_mask B N 2 2"
  shows "(\<forall>p<2 * N. \<forall>q<2 * N. M ! p ! q = M ! q ! p) \<and> (\<forall>p<2 * N. 1 \<le> sum_list (M ! p))"
proof -
  have N: "length ls = N" and B: "B = eq_labels ls"
    using assms(1) by (auto simp: base_mask_def split: if_splits)
  have M: "M = final_mask (eq_labels ls) (length ls) 2 2"
    by (simp add: assms(2) N B)
  have sym: "\<forall>p<2 * N. \<forall>q<2 * N. M ! p ! q = M ! q ! p"
    unfolding N[symmetric] by (simp add: M label_mask_row)
  have rows: "1 \<le> sum_list (M ! p)" if p: "p < 2 * N" for p
  proof -
    let ?row = "M ! p"
    have p': "p < 2 * length ls" using p N by simp
    have row: "?row = map (\<lambda>q. if q = p then 0
                     else if ls ! (p mod length ls) = ls ! (q mod length ls) then 1 else 0)
             [0..<2 * length ls]"
      by (simp add: M label_mask_row[OF p'])
    have "?row ! partner (length ls) p = 1"
      using partner_less[OF p'] partner_neq[OF p'] partner_mod[OF p'] by (simp add: row)
    moreover have "partner (length ls) p < length ?row"
      using partner_less[OF p'] by (simp add: row)
    ultimately have "1 \<in> set ?row" by (metis nth_mem)
    moreover have "\<And>x. x \<in> set ?row \<Longrightarrow> 0 \<le> x" by (auto simp: row)
    ultimately show ?thesis by (rule member_le_sum_list)
  qed
  from sym rows show ?thesis by blast
qed

theorem label_mask_symmetric_row_sum_witness:
  "base_mask 3 (Some [7, 4, 7]) None = Inr (eq_labels [7, 4, 7])
   \<and> final_mask (eq_labels [7, 4, 7]) 3 2 2 ! 0 ! 2 = final_mask (eq_labels [7, 4, 7]) 3 2 2 ! 2 ! 0
   \<and> 1 \<le> sum_list (final_mask (eq_labels [7, 4, 7]) 3 2 2 ! 1)"
proof -
  have h: "base_mask 3 (Some [7, 4, 7]) None = Inr (eq_labels [7, 4, 7])"
    by (simp add: base_mask_def)
  note t = label_mask_symmetric_row_sum[OF h refl]
  have s: "final_mask (eq_labels [7, 4, 7]) 3 2 2 ! 0 ! 2
           = final_mask (eq_labels [7, 4, 7]) 3 2 2 ! 2 ! 0"
    using t[THEN conjunct1, rule_format, of 0 2] by simp
  have r: "1 \<le> sum_list (final_mask (eq_labels [7, 4, 7]) 3 2 2 ! 1)"
    using t[THEN conjunct2, rule_format, of 1] by simp
  from h s r show ?thesis by blast
qed

text \<open>
  C2. \<open>forward\<close> passes the similarity matrix \<open>anchor_dot_contrast\<close> to
  \<open>loss_of_similarity\<close>, which starts with the row-max subtraction. Adding one constant
  \<open>c\<close> to every entry of the similarity matrix before that subtraction leaves the
  result unchanged, whatever the matrix and the mask are.
\<close>

theorem similarity_shift_invariant:
  "loss_of_similarity self N ac cc (map (map (\<lambda>x. tadd x (Fin c))) adc) B =
   loss_of_similarity self N ac cc adc B"
proof -
  have logits: "sub_row_max (map (map (\<lambda>x. tadd x (Fin c))) adc) = sub_row_max adc"
    by (rule sub_row_max_shift)
  show ?thesis unfolding loss_of_similarity_def logits ..
qed

text \<open>
  C3. \<open>forward\<close> has no check of the row sums of the mask. On an input that passes its
  checks, with a mask of non-negative entries in which some row sums to zero after the
  diagonal is zeroed, it raises no error and returns NaN (the division \<open>0 / 0\<close> of
  that row). An input with one view per sample and no labels is such an input.
\<close>

theorem degenerate_mask_returns_nan:
  assumes rank: "3 \<le> length (shape features)"
    and N: "0 < shape features ! 0" and V: "0 < shape features ! 1"
    and mode: "contrast_mode self = ''all'' \<and> ac = shape features ! 1
             \<or> contrast_mode self = ''one'' \<and> ac = 1"
    and bT: "base_temperature self \<noteq> 0"
    and base: "base_mask (shape features ! 0) labels msk = Inr B"
    and sq: "square (shape features ! 0) B"
    and nonneg: "\<forall>row \<in> set B. \<forall>x \<in> set row. 0 \<le> x"
    and p: "p < ac * shape features ! 0"
    and zero: "sum_list (final_mask B (shape features ! 0) ac (shape features ! 1) ! p) = 0"
  shows "forward self features labels msk = Inr NaN"
proof -
  let ?N = "shape features ! 0" and ?V = "shape features ! 1"
  let ?cf = "contrast_feature features"
  from mode show ?thesis
  proof
    assume m: "contrast_mode self = ''all'' \<and> ac = ?V"
    have "length (anchor_dot_contrast ?cf ?cf (temperature self)) = ac * ?N"
      using m by (simp add: length_anchor_dot_contrast length_contrast_feature)
    from loss_of_similarity_degenerate[OF sq nonneg N V this bT p zero]
    show ?thesis using forward_all[OF rank N V base] m by simp
  next
    assume m: "contrast_mode self = ''one'' \<and> ac = 1"
    let ?A = "map (\<lambda>i. feature_row features i 0) [0..<?N]"
    have "length (anchor_dot_contrast ?A ?cf (temperature self)) = ac * ?N"
      using m by (simp add: length_anchor_dot_contrast)
    from loss_of_similarity_degenerate[OF sq nonneg N V this bT p zero]
    show ?thesis using forward_one[OF rank N V base] m by simp
  qed
qed

theorem degenerate_mask_returns_nan_witness:
  "base_mask 1 None (Some [[0]]) = Inr [[0]]
   \<and> sum_list (final_mask [[0]] 1 2 2 ! 0) = 0
   \<and> forward \<lparr>temperature = 7/100, contrast_mode = ''all'', base_temperature = 7/100\<rparr>
        (Tensor [1, 2, 1] [1, 1]) None (Some [[0]]) = Inr NaN"
proof -
  let ?self = "\<lparr>temperature = 7/100, contrast_mode = ''all'', base_temperature = 7/100\<rparr>"
  let ?f = "Tensor [1, 2, 1] [1, 1]"
  have base: "base_mask (shape ?f ! 0) None (Some [[0]]) = Inr [[0]]"
    by (simp add: base_mask_def)
  have sq: "square (shape ?f ! 0) [[0]]" by (simp add: square_def)
  have nonneg: "\<forall>row \<in> set [[0::real]]. \<forall>x \<in> set row. 0 \<le> x" by simp
  have p: "0 < 2 * shape ?f ! 0" by simp
  have "sum_list (final_mask [[0]] 1 2 2 ! 0) = 0" by code_simp
  then have zero: "sum_list (final_mask [[0]] (shape ?f ! 0) 2 (shape ?f ! 1) ! 0) = 0"
    by simp
  have "forward ?self ?f None (Some [[0]]) = Inr NaN"
    by (rule degenerate_mask_returns_nan[where ac = 2 and B = "[[0]]" and p = 0,
          OF _ _ _ _ _ base sq nonneg p zero]) simp_all
  then show ?thesis using base zero by simp
qed

theorem degenerate_mask_counterexample:
  "sum_list (final_mask (eye 2) 2 1 1 ! 0) = 0
   \<and> forward \<lparr>temperature = 7/100, contrast_mode = ''all'', base_temperature = 7/100\<rparr>
        (Tensor [2, 1, 1] [1, 1]) None None = Inr NaN"
  by (simp add: forward_def base_mask_def eye_def contrast_feature_def feature_row_def
      loss_of_similarity_def anchor_dot_contrast_def dot_def sub_row_max_def row_max_def
      logits_mask_of_def final_mask_def repeat_def scatter_zero_diag_def mat_mul_elem_def
      log_prob_row_def exp_logits_row_def mean_log_prob_pos_row_def tsum_def tsub_def
      upt_rec Let_def)




text \<open>
  C6. When the labels are pairwise distinct the label mask is the identity mask, and
  \<open>forward\<close> with these labels returns what it returns with no labels. The labels
  \<open>[0, 1]\<close> for \<open>N = 2\<close>, \<open>V = 2\<close> are the instance below.
\<close>

theorem distinct_labels_same_loss:
  assumes "distinct ls" and "length ls = shape features ! 0"
  shows "eq_labels ls = eye (length ls)
       \<and> forward self features (Some ls) None = forward self features None None"
proof -
  have h: "base_mask (shape features ! 0) (Some ls) None = base_mask (shape features ! 0) None None"
    using assms by (simp add: base_mask_def eq_labels_distinct)
  have "forward self features (Some ls) None = forward self features None None"
    by (simp only: forward_def Let_def h)
  then show ?thesis using eq_labels_distinct[OF assms(1)] by simp
qed

theorem distinct_labels_same_loss_witness:
  "distinct [0, 1 :: int] \<and> length [0, 1 :: int] = shape (Tensor [2, 2, 1] [1, 0, 0, 1]) ! 0
   \<and> forward \<lparr>temperature = 7/100, contrast_mode = ''all'', base_temperature = 7/100\<rparr>
        (Tensor [2, 2, 1] [1, 0, 0, 1]) (Some [0, 1]) None
     = forward \<lparr>temperature = 7/100, contrast_mode = ''all'', base_temperature = 7/100\<rparr>
        (Tensor [2, 2, 1] [1, 0, 0, 1]) None None"
proof -
  have d: "distinct [0, 1 :: int]" by simp
  have l: "length [0, 1 :: int] = shape (Tensor [2, 2, 1] [1, 0, 0, 1]) ! 0" by simp
  from distinct_labels_same_loss[OF d l] d l show ?thesis by blast
qed

text \<open>
  C7. One pre-training step on two view batches of \<open>N\<close> rows each, with a model that
  yields one embedding per input row: the model is run exactly once, on
  \<open>data[0]\<close> followed by \<open>data[1]\<close>; every row of its output is the raw embedding
  divided by its norm (of norm one unless the raw norm is below \<open>eps\<close>); the result has
  \<open>N\<close> entries, and entry \<open>i\<close> holds rows \<open>i\<close> and \<open>i + N\<close> of the flat output.
\<close>

theorem pretraining_features_layout:
  assumes d0: "length data0 = N" and d1: "length data1 = N" and lab: "length labels = N"
    and ext: "length (head model (encoder model (data0 @ data1))) = length (data0 @ data1)"
    and raw: "raw = head model (encoder model (data0 @ data1))"
    and flat: "flat = F_normalize raw"
  shows "(\<exists>R. pretraining_features model data0 data1 labels calls
                 = (Inr R, calls @ [data0 @ data1])
              \<and> length R = N
              \<and> (\<forall>i<N. R ! i = [flat ! i, flat ! (i + N)]))
       \<and> (\<forall>k<2 * N. flat ! k = map (\<lambda>a. a / max (l2_norm (raw ! k)) (1 / 10 ^ 12)) (raw ! k)
                    \<and> (1 / 10 ^ 12 \<le> l2_norm (raw ! k) \<longrightarrow> l2_norm (flat ! k) = 1))"
proof -
  have len_raw: "length raw = 2 * N" using ext d0 d1 raw by simp
  have len_flat: "length flat = N + N" using len_raw flat by (simp add: length_F_normalize)
  let ?R = "map (\<lambda>(a, b). [a, b]) (zip (take N flat) (drop N flat))"
  have call: "call_model model (data0 @ data1) calls = (flat, calls @ [data0 @ data1])"
    by (simp add: call_model_def SupCon_forward_def raw flat)
  have run: "pretraining_features model data0 data1 labels calls
               = (Inr ?R, calls @ [data0 @ data1])"
    using len_flat by (simp add: pretraining_features_def call lab)
  have lenR: "length ?R = N" using len_flat by simp
  have rows: "\<forall>i<N. ?R ! i = [flat ! i, flat ! (i + N)]"
    using len_flat by (simp add: add.commute)
  have norm: "\<forall>k<2 * N. flat ! k = map (\<lambda>a. a / max (l2_norm (raw ! k)) (1 / 10 ^ 12)) (raw ! k)
                    \<and> (1 / 10 ^ 12 \<le> l2_norm (raw ! k) \<longrightarrow> l2_norm (flat ! k) = 1)"
  proof (intro allI impI conjI)
    fix k assume k: "k < 2 * N"
    then show fk: "flat ! k = map (\<lambda>a. a / max (l2_norm (raw ! k)) (1 / 10 ^ 12)) (raw ! k)"
      using len_raw by (simp only: flat nth_F_normalize)
    assume "1 / 10 ^ 12 \<le> l2_norm (raw ! k)"
    then show "l2_norm (flat ! k) = 1" unfolding fk by (rule l2_norm_normalized)
  qed
  from run lenR rows norm show ?thesis by blast
qed

theorem pretraining_features_layout_witness:
  "(\<exists>R. pretraining_features \<lparr>encoder = (\<lambda>x. x), head = (\<lambda>x. x)\<rparr> [[3, 4]] [[0, 2]] [5] []
           = (Inr R, [] @ [[[3, 4]] @ [[0, 2]]])
        \<and> length R = 1
        \<and> R ! 0 = [F_normalize [[3, 4], [0, 2]] ! 0, F_normalize [[3, 4], [0, 2]] ! (0 + 1)])"
proof -
  let ?m = "\<lparr>encoder = (\<lambda>x::real list list. x), head = (\<lambda>x. x)\<rparr>"
  have e: "length (head ?m (encoder ?m ([[3, 4]] @ [[0, 2]]))) = length ([[3, 4]] @ [[0, 2 :: real]])"
    by simp
  have r: "[[3, 4], [0, 2]] = head ?m (encoder ?m ([[3, 4]] @ [[0, 2]]))" by simp
  note t = pretraining_features_layout[where model = ?m and labels = "[5]" and calls = "[]"
      and N = 1, OF _ _ _ e r refl, THEN conjunct1]
  have "\<exists>R. pretraining_features ?m [[3, 4]] [[0, 2]] [5] []
           = (Inr R, [] @ [[[3, 4]] @ [[0, 2]]])
        \<and> length R = 1
        \<and> (\<forall>i<1. R ! i = [F_normalize [[3, 4], [0, 2]] ! i, F_normalize [[3, 4], [0, 2]] ! (i + 1)])"
    by (rule t) simp_all
  then show ?thesis by auto
qed




text \<open>
  C9. \<open>calculate_accuracy\<close> compares the argmax index with one. There are scores and
  targets, as class labels and as one-hot rows, on which its result is not the top-1
  accuracy: a sample of class 0 scored highest on class 2 counts as correct, and a
  one-hot target of three entries gives the value two.
\<close>

theorem calculate_accuracy_not_top1:
  "calculate_accuracy [[1/10, 2/10, 7/10]] (map real [0]) = Inr (Fin 1)
   \<and> top1_accuracy [[1/10, 2/10, 7/10]] [0] = 0
   \<and> calculate_accuracy [[1/10, 2/10, 7/10]] (concat [[0, 0, 1]]) = Inr (Fin 2)
   \<and> top1_accuracy_one_hot [[1/10, 2/10, 7/10]] [[0, 0, 1]] = 1
   \<and> (\<exists>output classes.
         calculate_accuracy output (map real classes) \<noteq> Inr (Fin (top1_accuracy output classes)))
   \<and> (\<exists>output target.
         calculate_accuracy output (concat target)
           \<noteq> Inr (Fin (top1_accuracy_one_hot output target)))"
proof -
  have a: "calculate_accuracy [[1/10, 2/10, 7/10]] (map real [0]) = Inr (Fin 1)"
    by (simp add: calculate_accuracy_def argmax_def)
  have b: "top1_accuracy [[1/10, 2/10, 7/10]] [0] = 0"
    by (simp add: top1_accuracy_def argmax_def)
  have c: "calculate_accuracy [[1/10, 2/10, 7/10]] (concat [[0, 0, 1]]) = Inr (Fin 2)"
    by (simp add: calculate_accuracy_def argmax_def)
  have d: "top1_accuracy_one_hot [[1/10, 2/10, 7/10]] [[0, 0, 1]] = 1"
    by (simp add: top1_accuracy_one_hot_def top1_accuracy_def argmax_def)
  have e: "calculate_accuracy [[1/10, 2/10, 7/10]] (map real [0])
             \<noteq> Inr (Fin (top1_accuracy [[1/10, 2/10, 7/10]] [0]))"
    unfolding a b by simp
  have f: "calculate_accuracy [[1/10, 2/10, 7/10]] (concat [[0, 0, 1]])
             \<noteq> Inr (Fin (top1_accuracy_one_hot [[1/10, 2/10, 7/10]] [[0, 0, 1]]))"
    unfolding c d by simp
  from a b c d e f show ?thesis by blast
qed

text \<open>
  C10. With both labels and a mask, \<open>forward\<close> always raises: the error for labels and
  mask together when the features pass the checks that come first, and the error of the
  failing check otherwise. No loss is returned.
\<close>

theorem labels_and_mask_error:
  "forward self features (Some ls) (Some m) =
     (if length (shape features) < 3 then Inl FeaturesDimError
      else if 3 < length (shape features) \<and> shape features ! 0 * shape features ! 1 = 0
        then Inl TorchRuntimeError
      else Inl LabelsAndMaskError)"
  by (simp add: forward_def base_mask_def Let_def)

theorem labels_and_mask_counterexample:
  "forward \<lparr>temperature = 7/100, contrast_mode = ''all'', base_temperature = 7/100\<rparr>
     (Tensor [2, 2] [1, 0, 0, 1]) (Some [0, 1]) (Some [[1, 0], [0, 1]]) = Inl FeaturesDimError
   \<and> forward \<lparr>temperature = 7/100, contrast_mode = ''all'', base_temperature = 7/100\<rparr>
     (Tensor [2, 2] [1, 0, 0, 1]) (Some [0, 1]) (Some [[1, 0], [0, 1]]) \<noteq> Inl LabelsAndMaskError"
  by (simp add: forward_def)

end
